theory Spec2Isabelle
  imports Main "HOL-Library.Char_ord" "HOL-Library.List_Lexorder"
begin

section \<open>The MIRT pipeline runner (start\_mirt\_pipeline.py)\<close>

text \<open>
  The script sequences four stages (generate, train with evaluation, visualize, test)
  over a grid of ability dimensions and time variants. The fitting, evaluation,
  plotting and directory helpers live in other modules; they appear here as the fields
  of a record of collaborators that act on the directory listings of a file system.
  Python strings are byte strings, compared byte by byte: \<open>string\<close> with the orders of
  \<open>Char_ord\<close> and \<open>List_Lexorder\<close>.
\<close>

subsection \<open>Values, errors and the world\<close>

datatype error = OSError | IndexError | NameError string

record arguments =
  data_file :: string
  abilities :: "int list"
  num_students :: int
  num_problems :: int
  time :: string
  workers :: int
  num_epochs :: int
  model_directory :: string
  model :: string
  generate :: bool
  train :: bool
  visualize :: bool
  test :: bool
  include_time :: bool

text \<open>\<open>mkdir_p\<close> is called once with a list of paths and once with a single path.\<close>

datatype paths = PathList "string list" | OnePath string

text \<open>A file system maps a directory path to the names it lists; \<open>None\<close>: no such directory.\<close>

type_synonym fs = "string \<Rightarrow> string list option"

datatype 'p event =
    Print string
  | GenerateResponses arguments
  | MkdirP paths
  | SepIntoTrainAndTest arguments
  | MirtTrainEM "string list"
  | LoadAndSimulate string string string
  | ShowRoc "(string \<times> 'p list) list"
  | ShowExercises string
  | AdaptivePretest string

record 'p world =
  files :: fs
  events :: "'p event list"

record 'p collaborators =
  generate_responses_run :: "arguments \<Rightarrow> fs \<Rightarrow> fs"
  mkdir_p :: "paths \<Rightarrow> fs \<Rightarrow> fs"
  sep_into_train_and_test :: "arguments \<Rightarrow> fs \<Rightarrow> fs"
  run_programmatically :: "string list \<Rightarrow> fs \<Rightarrow> fs"
  load_and_simulate_assessment :: "string \<Rightarrow> string \<Rightarrow> string \<Rightarrow> fs \<Rightarrow> 'p list \<times> fs"
  datetime_now_strftime :: string

text \<open>A call of a collaborator is logged and its effect on the file system applied.\<close>

definition call :: "'p event \<Rightarrow> (fs \<Rightarrow> fs) \<Rightarrow> 'p world \<Rightarrow> 'p world" where
  "call ev eff W = W\<lparr>files := eff (files W), events := events W @ [ev]\<rparr>"

definition emit :: "'p event list \<Rightarrow> 'p world \<Rightarrow> 'p world" where
  "emit evs W = W\<lparr>events := events W @ evs\<rparr>"

text \<open>An exception leaves with the world as it was when it was raised.\<close>

type_synonym ('a, 'p) result = "(error \<times> 'p world) + ('a \<times> 'p world)"

subsection \<open>Formatting integers: \<open>str\<close> and \<open>%s\<close>\<close>

definition digit_char :: "nat \<Rightarrow> char" where
  "digit_char d = ''0123456789'' ! d"

fun str_nat :: "nat \<Rightarrow> string" where
  "str_nat n = (if n < 10 then [digit_char n] else str_nat (n div 10) @ [digit_char (n mod 10)])"

declare str_nat.simps [simp del]

definition str_int :: "int \<Rightarrow> string" where
  "str_int i = (if i < 0 then CHR ''-'' # str_nat (nat (- i)) else str_nat (nat i))"

subsection \<open>Time variants\<close>

text \<open>
  \<open>get_time_arguments\<close> (lines 115-129) returns the lines it prints and the list of
  time variants: the empty string stands for a model with response time, \<open>-z\<close> for one
  without.
\<close>

definition get_time_arguments :: "arguments \<Rightarrow> string list \<times> string list" where
  "get_time_arguments arguments =
    (if time arguments = ''with_and_without_time'' then ([], ['''', ''-z''])
     else if time arguments = ''without_time'' then ([], [''-z''])
     else if time arguments = ''with_time'' then ([], [''''])
     else ([''Invalid argument selected for --time'',
            ''Choosing default behavior - with time''], ['''']))"

subsection \<open>The latest parameter file\<close>

text \<open>\<open>s.split(c)\<close>: the pieces of \<open>s\<close> between the occurrences of \<open>c\<close>, never an empty list.\<close>

fun str_split :: "char \<Rightarrow> string \<Rightarrow> string list" where
  "str_split c [] = [[]]"
| "str_split c (x # xs) =
    (if x = c then [] # str_split c xs
     else (x # hd (str_split c xs)) # tl (str_split c xs))"

definition sort_suffix :: "string \<Rightarrow> string" where
  "sort_suffix fname = last (str_split CHR ''_'' fname)"

definition listdir :: "fs \<Rightarrow> string \<Rightarrow> error + string list" where
  "listdir F path = (case F path of None \<Rightarrow> Inl OSError | Some names \<Rightarrow> Inr names)"

text \<open>
  Lines 132-139. \<open>list.sort(key=...)\<close> is stable, as \<open>sort_key\<close> is; \<open>npz_files[-1]\<close>
  raises IndexError on an empty list.
\<close>

definition get_latest_parameter_file_name :: "fs \<Rightarrow> string \<Rightarrow> error + string" where
  "get_latest_parameter_file_name F path =
    (case listdir F path of
       Inl e \<Rightarrow> Inl e
     | Inr npz_files \<Rightarrow>
         (case sort_key sort_suffix npz_files of
            [] \<Rightarrow> Inl IndexError
          | f # fs \<Rightarrow> Inr (path @ last (f # fs))))"

subsection \<open>Tags and the two invocations of a grid cell\<close>

text \<open>Lines 154-158: the label is chosen by the truth value of the variant string.\<close>

definition gen_param_str :: "int \<Rightarrow> string \<Rightarrow> string \<Rightarrow> string" where
  "gen_param_str abilities_v datetime_str time_v =
    (let time_str = (if time_v \<noteq> [] then ''time'' else ''no_time'')
     in str_int abilities_v @ ''_'' @ time_str @ ''_'' @ datetime_str)"

text \<open>Lines 169-176: the parameter list handed to the fitting collaborator.\<close>

definition mirt_train_params :: "arguments \<Rightarrow> int \<Rightarrow> string \<Rightarrow> string \<Rightarrow> string list" where
  "mirt_train_params arguments abilities_v time_v datetime_str =
    (let param_str = gen_param_str abilities_v datetime_str time_v;
         out_dir_name = model_directory arguments @ param_str @ ''/'';
         params = [''-a'', str_int abilities_v,
                   ''-w'', str_int (workers arguments),
                   ''-n'', str_int (num_epochs arguments),
                   ''-f'', model_directory arguments @ ''train.responses'',
                   ''-o'', out_dir_name]
     in if time_v \<noteq> [] then params @ [time_v] else params)"

text \<open>Lines 161-178.\<close>

definition generate_model_with_parameters ::
  "'p collaborators \<Rightarrow> arguments \<Rightarrow> int \<Rightarrow> string \<Rightarrow> string \<Rightarrow> 'p world \<Rightarrow> 'p world" where
  "generate_model_with_parameters C arguments abilities_v time_v datetime_str W =
    (let param_str = gen_param_str abilities_v datetime_str time_v;
         out_dir_name = model_directory arguments @ param_str @ ''/'';
         W1 = call (MkdirP (OnePath out_dir_name)) (mkdir_p C (OnePath out_dir_name)) W;
         ps = mirt_train_params arguments abilities_v time_v datetime_str
     in call (MirtTrainEM ps) (run_programmatically C ps) W1)"

text \<open>Lines 181-192: the curve of the newest checkpoint of the cell's directory.\<close>

definition generate_roc_curve_from_model ::
  "'p collaborators \<Rightarrow> arguments \<Rightarrow> int \<Rightarrow> string \<Rightarrow> string \<Rightarrow> 'p world \<Rightarrow> ('p list, 'p) result" where
  "generate_roc_curve_from_model C arguments abilities_v time_v datetime_str W =
    (let roc_dir = model_directory arguments @ ''rocs/'';
         test_file = model_directory arguments @ ''test.responses'';
         param_str = gen_param_str abilities_v datetime_str time_v;
         out_dir_name = model_directory arguments @ param_str @ ''/''
     in case get_latest_parameter_file_name (files W) out_dir_name of
          Inl e \<Rightarrow> Inl (e, W)
        | Inr params \<Rightarrow>
            (let roc_file = roc_dir @ param_str @ ''.roc'';
                 r = load_and_simulate_assessment C params roc_file test_file (files W)
             in Inr (fst r, call (LoadAndSimulate params roc_file test_file) (\<lambda>_. snd r) W)))"

text \<open>Lines 148-151.\<close>

definition make_necessary_directiories :: "'p collaborators \<Rightarrow> arguments \<Rightarrow> 'p world \<Rightarrow> 'p world" where
  "make_necessary_directiories C arguments W =
    (let roc_dir = model_directory arguments @ ''rocs/''
     in call (MkdirP (PathList [roc_dir])) (mkdir_p C (PathList [roc_dir])) W)"

subsection \<open>The runner\<close>

text \<open>
  The local variables of \<open>run_with_arguments\<close> that outlive the statement binding them;
  \<open>None\<close> is a name not bound yet, whose use raises a NameError.
\<close>

record 'p locals =
  v_time :: "string option"
  v_roc_curve :: "'p list option"
  v_params :: "string option"
  v_model :: "string option"

definition no_locals :: "'p locals" where
  "no_locals = \<lparr>v_time = None, v_roc_curve = None, v_params = None, v_model = None\<rparr>"

text \<open>A \<open>for\<close> loop whose body may raise: the first exception ends the loop.\<close>

fun for_each :: "('x \<Rightarrow> 's \<Rightarrow> 'e + 's) \<Rightarrow> 'x list \<Rightarrow> 's \<Rightarrow> 'e + 's" where
  "for_each body [] s = Inr s"
| "for_each body (x # xs) s =
    (case body x s of Inl e \<Rightarrow> Inl e | Inr s' \<Rightarrow> for_each body xs s')"

text \<open>Lines 217-220, the body of the inner loop over the time variants.\<close>

definition cell_body ::
  "'p collaborators \<Rightarrow> arguments \<Rightarrow> string \<Rightarrow> int \<Rightarrow> string \<Rightarrow>
   'p locals \<times> 'p world \<Rightarrow> ('p locals, 'p) result" where
  "cell_body C arguments datetime_str abilities_v time_v = (\<lambda>(L, W).
    (let L1 = L\<lparr>v_time := Some time_v\<rparr>;
         W1 = generate_model_with_parameters C arguments abilities_v time_v datetime_str W
     in case generate_roc_curve_from_model C arguments abilities_v time_v datetime_str W1 of
          Inl err \<Rightarrow> Inl err
        | Inr (roc_curve, W2) \<Rightarrow> Inr (L1\<lparr>v_roc_curve := Some roc_curve\<rparr>, W2)))"

text \<open>
  Lines 216-223, the body of the outer loop over the abilities: the inner loop, then
  \<open>params\<close> and \<open>model\<close> from the value \<open>time\<close> was left with.
\<close>

definition ability_body ::
  "'p collaborators \<Rightarrow> arguments \<Rightarrow> string \<Rightarrow> int \<Rightarrow>
   'p locals \<times> 'p world \<Rightarrow> ('p locals, 'p) result" where
  "ability_body C arguments datetime_str abilities_v = (\<lambda>(L, W).
    (let printed = fst (get_time_arguments arguments);
         time_arguments = snd (get_time_arguments arguments);
         W0 = emit (map Print printed) W
     in case for_each (cell_body C arguments datetime_str abilities_v) time_arguments (L, W0) of
          Inl err \<Rightarrow> Inl err
        | Inr (L1, W1) \<Rightarrow>
            (case v_time L1 of
               None \<Rightarrow> Inl (NameError ''time'', W1)
             | Some time_v \<Rightarrow>
                 (let params = gen_param_str abilities_v datetime_str time_v;
                      out_dir_name = model_directory arguments @ params @ ''/''
                  in case get_latest_parameter_file_name (files W1) out_dir_name of
                       Inl e \<Rightarrow> Inl (e, W1)
                     | Inr m \<Rightarrow> Inr (L1\<lparr>v_params := Some params, v_model := Some m\<rparr>, W1)))))"

text \<open>Lines 201-223.\<close>

definition train_stage ::
  "'p collaborators \<Rightarrow> arguments \<Rightarrow> 'p locals \<times> 'p world \<Rightarrow> ('p locals, 'p) result" where
  "train_stage C arguments = (\<lambda>(L, W).
    (let W1 = make_necessary_directiories C arguments W;
         W2 = call (SepIntoTrainAndTest arguments) (sep_into_train_and_test C arguments) W1;
         W3 = emit [Print ''Training MIRT models''] W2;
         datetime_str = datetime_now_strftime C
     in for_each (ability_body C arguments datetime_str) (abilities arguments) (L, W3)))"

text \<open>
  Lines 224-227. In \<open>{params: [r for r in roc_curve]}\<close> Python 2 evaluates the value
  before the key.
\<close>

definition visualize_stage :: "'p locals \<times> 'p world \<Rightarrow> ('p locals, 'p) result" where
  "visualize_stage = (\<lambda>(L, W).
    (case v_model L of
       None \<Rightarrow> Inl (NameError ''model'', W)
     | Some m \<Rightarrow>
         (let W1 = emit [Print (''visualizing for '' @ m)] W
          in case v_roc_curve L of
               None \<Rightarrow> Inl (NameError ''roc_curve'', W1)
             | Some roc_curve \<Rightarrow>
                 (case v_params L of
                    None \<Rightarrow> Inl (NameError ''params'', W1)
                  | Some params \<Rightarrow>
                      Inr (L, emit [ShowRoc [(params, map (\<lambda>r. r) roc_curve)], ShowExercises m] W1)))))"

text \<open>Lines 228-229.\<close>

definition test_stage :: "'p locals \<times> 'p world \<Rightarrow> ('p locals, 'p) result" where
  "test_stage = (\<lambda>(L, W).
    (case v_model L of
       None \<Rightarrow> Inl (NameError ''model'', W)
     | Some m \<Rightarrow> Inr (L, emit [AdaptivePretest m] W)))"

text \<open>Lines 195-229.\<close>

definition run_with_arguments ::
  "'p collaborators \<Rightarrow> arguments \<Rightarrow> 'p world \<Rightarrow> (unit, 'p) result" where
  "run_with_arguments C arguments W =
    (let W1 = (if generate arguments
               then call (GenerateResponses arguments) (generate_responses_run C arguments) W
               else W)
     in case (if train arguments then train_stage C arguments (no_locals, W1)
              else Inr (no_locals, W1)) of
          Inl err \<Rightarrow> Inl err
        | Inr s1 \<Rightarrow>
            (case (if visualize arguments then visualize_stage s1 else Inr s1) of
               Inl err \<Rightarrow> Inl err
             | Inr s2 \<Rightarrow>
                 (case (if test arguments then test_stage s2 else Inr s2) of
                    Inl err \<Rightarrow> Inl err
                  | Inr s3 \<Rightarrow> Inr ((), snd s3))))"

subsection \<open>Reading the log\<close>

fun train_calls :: "'p event list \<Rightarrow> string list list" where
  "train_calls [] = []"
| "train_calls (MirtTrainEM ps # evs) = ps # train_calls evs"
| "train_calls (_ # evs) = train_calls evs"

text \<open>The curve files of the evaluation calls, in order.\<close>

fun eval_calls :: "'p event list \<Rightarrow> string list" where
  "eval_calls [] = []"
| "eval_calls (LoadAndSimulate p r t # evs) = r # eval_calls evs"
| "eval_calls (_ # evs) = eval_calls evs"

fun mkdir_calls :: "'p event list \<Rightarrow> paths list" where
  "mkdir_calls [] = []"
| "mkdir_calls (MkdirP p # evs) = p # mkdir_calls evs"
| "mkdir_calls (_ # evs) = mkdir_calls evs"

text \<open>The output directory and the curve file of a cell, as both invocations derive them.\<close>

definition out_dir :: "arguments \<Rightarrow> string \<Rightarrow> int \<Rightarrow> string \<Rightarrow> string" where
  "out_dir arguments datetime_str abilities_v time_v =
    model_directory arguments @ gen_param_str abilities_v datetime_str time_v @ ''/''"

definition roc_path :: "arguments \<Rightarrow> string \<Rightarrow> int \<Rightarrow> string \<Rightarrow> string" where
  "roc_path arguments datetime_str abilities_v time_v =
    model_directory arguments @ ''rocs/'' @ gen_param_str abilities_v datetime_str time_v @ ''.roc''"

text \<open>The tags of a run, in the order in which the loops of lines 215-218 compute them.\<close>

definition run_tags :: "arguments \<Rightarrow> string \<Rightarrow> string list" where
  "run_tags arguments datetime_str =
    concat (map (\<lambda>abilities_v.
                   map (\<lambda>time_v. gen_param_str abilities_v datetime_str time_v)
                       (snd (get_time_arguments arguments)))
                (abilities arguments))"

subsection \<open>What the runner expects of its collaborators\<close>

text \<open>
  The fitting collaborator is expected to leave at least one checkpoint in the
  directory that follows \<open>-o\<close>, and the evaluation not to empty a directory.
\<close>

definition has_checkpoint :: "fs \<Rightarrow> string \<Rightarrow> bool" where
  "has_checkpoint F d = (case F d of None \<Rightarrow> False | Some names \<Rightarrow> names \<noteq> [])"

definition leaves_checkpoint :: "'p collaborators \<Rightarrow> bool" where
  "leaves_checkpoint C \<longleftrightarrow>
    (\<forall>ps F. 10 \<le> length ps \<longrightarrow> has_checkpoint (run_programmatically C ps F) (ps ! 9))"

definition keeps_checkpoints :: "'p collaborators \<Rightarrow> bool" where
  "keeps_checkpoints C \<longleftrightarrow>
    (\<forall>p r t F d. has_checkpoint F d \<longrightarrow>
       has_checkpoint (snd (load_and_simulate_assessment C p r t F)) d)"

subsection \<open>Sample inputs\<close>

text \<open>
  The options of lines 53-110 when none is given on the command line; \<open>here\<close> is the
  directory of the script.
\<close>

definition default_arguments :: "string \<Rightarrow> arguments" where
  "default_arguments here =
    \<lparr>data_file = here @ ''/sample_data/all.responses'',
     abilities = [1], num_students = 500, num_problems = 10,
     time = ''without_time'', workers = 1, num_epochs = 100,
     model_directory = here @ ''/sample_data/models/'',
     model = here @ ''/sample_data/models/model.json'',
     generate = False, train = False, visualize = False, test = False,
     include_time = False\<rparr>"

text \<open>
  Collaborators for the examples: the fitting step leaves one checkpoint in the
  directory named after \<open>-o\<close>, the evaluation returns one curve point per character of
  the checkpoint's path, the others do nothing.
\<close>

definition sample_collaborators :: "nat collaborators" where
  "sample_collaborators =
    \<lparr>generate_responses_run = (\<lambda>_ F. F),
     mkdir_p = (\<lambda>_ F. F),
     sep_into_train_and_test = (\<lambda>_ F. F),
     run_programmatically = (\<lambda>ps F. F(ps ! 9 \<mapsto> [''theta_0.npz''])),
     load_and_simulate_assessment = (\<lambda>p r t F. ([length p], F)),
     datetime_now_strftime = ''T''\<rparr>"

definition sample_arguments :: arguments where
  "sample_arguments =
    (default_arguments ''h'')
      \<lparr>abilities := [1, 2], time := ''with_and_without_time'', model_directory := ''m/'',
       train := True, visualize := True, test := True\<rparr>"

definition empty_world :: "nat world" where
  "empty_world = \<lparr>files = (\<lambda>_. None), events = []\<rparr>"

section \<open>Properties\<close>

subsection \<open>Integer formatting\<close>

lemma digit_cases:
  "d < 10 \<Longrightarrow> d = 0 \<or> d = 1 \<or> d = 2 \<or> d = 3 \<or> d = 4 \<or> d = 5 \<or> d = 6 \<or> d = 7 \<or> d = 8 \<or> d = (9::nat)"
  by arith

lemma digit_char_not_sep:
  "d < 10 \<Longrightarrow> digit_char d \<noteq> CHR ''_'' \<and> digit_char d \<noteq> CHR ''-''"
  using digit_cases [of d] by (auto simp: digit_char_def)

lemma digit_char_value: "d < 10 \<Longrightarrow> of_char (digit_char d) - 48 = d"
  using digit_cases [of d] by (auto simp: digit_char_def)

lemma str_nat_nonempty: "str_nat n \<noteq> []"
  by (subst str_nat.simps) simp

lemma str_nat_no_sep: "CHR ''_'' \<notin> set (str_nat n) \<and> CHR ''-'' \<notin> set (str_nat n)"
proof (induction n rule: str_nat.induct)
  case (1 n)
  show ?case
  proof (cases "n < 10")
    case True
    then show ?thesis
      using digit_char_not_sep [of n] by (auto simp add: str_nat.simps [of n])
  next
    case False
    then show ?thesis
      using 1 digit_char_not_sep [of "n mod 10"] by (auto simp add: str_nat.simps [of n])
  qed
qed

text \<open>Reading the digits back gives the number, so \<open>str_nat\<close> is injective.\<close>

lemma str_nat_value: "foldl (\<lambda>acc c. 10 * acc + (of_char c - 48)) 0 (str_nat n) = n"
proof (induction n rule: str_nat.induct)
  case (1 n)
  show ?case
  proof (cases "n < 10")
    case True
    then show ?thesis
      using digit_char_value [of n] by (simp add: str_nat.simps [of n])
  next
    case False
    then show ?thesis
      using 1 digit_char_value [of "n mod 10"] by (simp add: str_nat.simps [of n])
  qed
qed

lemma str_nat_inj: "str_nat n = str_nat m \<Longrightarrow> n = m"
  by (metis str_nat_value)

lemma str_nat_hd: "hd (str_nat n) \<noteq> CHR ''-''"
  using str_nat_no_sep str_nat_nonempty by (metis hd_in_set)

lemma str_int_inj:
  assumes h: "str_int a = str_int b"
  shows "a = b"
proof (cases "a < 0")
  case True
  show ?thesis
  proof (cases "b < 0")
    case b: True
    with True h have "str_nat (nat (- a)) = str_nat (nat (- b))"
      by (simp add: str_int_def)
    then have "nat (- a) = nat (- b)" by (rule str_nat_inj)
    with True b show ?thesis by simp
  next
    case False
    with True h have "CHR ''-'' # str_nat (nat (- a)) = str_nat (nat b)"
      by (simp add: str_int_def)
    then have "hd (str_nat (nat b)) = CHR ''-''" by (metis list.sel(1))
    with str_nat_hd show ?thesis by blast
  qed
next
  case False
  show ?thesis
  proof (cases "b < 0")
    case True
    with False h have "str_nat (nat a) = CHR ''-'' # str_nat (nat (- b))"
      by (simp add: str_int_def)
    then have "hd (str_nat (nat a)) = CHR ''-''" by (metis list.sel(1))
    with str_nat_hd show ?thesis by blast
  next
    case b: False
    with False h have "str_nat (nat a) = str_nat (nat b)"
      by (simp add: str_int_def)
    then have "nat a = nat b" by (rule str_nat_inj)
    with False b show ?thesis by simp
  qed
qed

lemma str_int_no_sep: "CHR ''_'' \<notin> set (str_int a)"
  using str_nat_no_sep by (simp add: str_int_def)

subsection \<open>The tag of a cell\<close>

text \<open>
  Claim C1 says that the tag carries the label \<open>time\<close> for the variant that includes
  the time signal (the empty marker) and \<open>no_time\<close> for the one that excludes it. The
  code chooses the label by the truth value of the marker: the empty marker, under
  which the model is fitted with response time, is tagged \<open>no_time\<close>, and the marker
  \<open>-z\<close>, under which it is fitted without, is tagged \<open>time\<close>.
\<close>

theorem gen_param_str_labels_swapped:
  "gen_param_str 1 ''2020_01_01_00_00'' '''' = ''1_no_time_2020_01_01_00_00''
 \<and> gen_param_str 1 ''2020_01_01_00_00'' ''-z'' = ''1_time_2020_01_01_00_00''"
  by (simp add: gen_param_str_def str_int_def str_nat.simps digit_char_def)

subsection \<open>Time variants\<close>

text \<open>
  Claim C6: \<open>get_time_arguments\<close> answers every time mode without raising: the three
  recognised modes give their variant lists and print nothing, every other string
  gives the variant with time after two lines of warning.
\<close>

theorem get_time_arguments_table:
  "(time arguments = ''with_time'' \<longrightarrow> get_time_arguments arguments = ([], ['''']))
 \<and> (time arguments = ''without_time'' \<longrightarrow> get_time_arguments arguments = ([], [''-z'']))
 \<and> (time arguments = ''with_and_without_time'' \<longrightarrow>
      get_time_arguments arguments = ([], ['''', ''-z'']))
 \<and> (time arguments \<notin> {''with_time'', ''without_time'', ''with_and_without_time''} \<longrightarrow>
      snd (get_time_arguments arguments) = ['''']
    \<and> fst (get_time_arguments arguments) =
        [''Invalid argument selected for --time'', ''Choosing default behavior - with time''])"
  by (simp add: get_time_arguments_def)

theorem get_time_arguments_table_witness:
  "get_time_arguments ((default_arguments ''h'')\<lparr>time := ''with_time''\<rparr>) = ([], [''''])
 \<and> get_time_arguments (default_arguments ''h'') = ([], [''-z''])
 \<and> get_time_arguments ((default_arguments ''h'')\<lparr>time := ''with_and_without_time''\<rparr>)
     = ([], ['''', ''-z''])
 \<and> snd (get_time_arguments ((default_arguments ''h'')\<lparr>time := ''sometimes''\<rparr>)) = ['''']"
  using get_time_arguments_table [of "(default_arguments ''h'')\<lparr>time := ''with_time''\<rparr>"]
        get_time_arguments_table [of "default_arguments ''h''"]
        get_time_arguments_table [of "(default_arguments ''h'')\<lparr>time := ''with_and_without_time''\<rparr>"]
        get_time_arguments_table [of "(default_arguments ''h'')\<lparr>time := ''sometimes''\<rparr>"]
  by (simp add: default_arguments_def)

subsection \<open>The parameter list of the fitting collaborator\<close>

text \<open>
  Claim C7 says that the extra marker is appended exactly when the variant marks time
  as included. For the variant of \<open>with_time\<close> the list has its ten entries and nothing
  more; for the variant of \<open>without_time\<close> the marker \<open>-z\<close> follows them.
\<close>

theorem mirt_train_params_with_time_counterexample:
  "snd (get_time_arguments ((default_arguments ''h'')\<lparr>time := ''with_time''\<rparr>)) = ['''']
 \<and> mirt_train_params ((default_arguments ''h'')\<lparr>time := ''with_time''\<rparr>) 1 '''' ''T'' =
     [''-a'', ''1'', ''-w'', ''1'', ''-n'', ''100'',
      ''-f'', ''h/sample_data/models/train.responses'',
      ''-o'', ''h/sample_data/models/1_no_time_T/'']"
  by (simp add: get_time_arguments_def mirt_train_params_def gen_param_str_def
      default_arguments_def str_int_def str_nat.simps digit_char_def)

text \<open>
  Claim C7, amended: the list always starts with the ten entries for abilities, workers,
  epochs, training file and output directory; it has an eleventh entry exactly when
  the variant string is not empty, that is for the variant without time, and the entry
  is the variant string itself.
\<close>

theorem mirt_train_params_marker:
  "take 10 (mirt_train_params arguments a time_v ts) =
     [''-a'', str_int a, ''-w'', str_int (workers arguments),
      ''-n'', str_int (num_epochs arguments),
      ''-f'', model_directory arguments @ ''train.responses'',
      ''-o'', model_directory arguments @ gen_param_str a ts time_v @ ''/'']
 \<and> (time_v \<noteq> [] \<longrightarrow> drop 10 (mirt_train_params arguments a time_v ts) = [time_v])
 \<and> (time_v = [] \<longrightarrow> drop 10 (mirt_train_params arguments a time_v ts) = [])"
  by (simp add: mirt_train_params_def Let_def)

theorem mirt_train_params_marker_witness:
  "drop 10 (mirt_train_params (default_arguments ''h'') 1 ''-z'' ''T'') = [''-z'']
 \<and> drop 10 (mirt_train_params (default_arguments ''h'') 1 [] ''T'') = []"
  using mirt_train_params_marker [of "default_arguments ''h''" 1 "''-z''" "''T''"]
        mirt_train_params_marker [of "default_arguments ''h''" 1 "[]" "''T''"]
  by simp

subsection \<open>Failures of the latest-file lookup\<close>

lemma sort_key_Nil_iff: "sort_key f xs = [] \<longleftrightarrow> xs = []"
  by (metis length_0_conv length_sort)



subsection \<open>Stages that do not train\<close>

text \<open>
  Claim C9: with only the generate flag set, the run ends normally and the only
  collaborator called is the generator of synthetic responses: no directory is made,
  nothing is trained, evaluated, shown or tested.
\<close>

theorem generate_only:
  assumes "generate arguments" "\<not> train arguments" "\<not> visualize arguments" "\<not> test arguments"
  shows "\<exists>W'. run_with_arguments C arguments W = Inr ((), W')
           \<and> events W' = events W @ [GenerateResponses arguments]
           \<and> files W' = generate_responses_run C arguments (files W)"
  using assms by (simp add: run_with_arguments_def call_def)

theorem generate_only_witness:
  "generate ((default_arguments ''h'')\<lparr>generate := True\<rparr>)
 \<and> \<not> train ((default_arguments ''h'')\<lparr>generate := True\<rparr>)
 \<and> \<not> visualize ((default_arguments ''h'')\<lparr>generate := True\<rparr>)
 \<and> \<not> test ((default_arguments ''h'')\<lparr>generate := True\<rparr>)
 \<and> (\<exists>W'. run_with_arguments sample_collaborators
             ((default_arguments ''h'')\<lparr>generate := True\<rparr>) empty_world = Inr ((), W')
        \<and> events W' = [GenerateResponses ((default_arguments ''h'')\<lparr>generate := True\<rparr>)])"
  using generate_only [of "(default_arguments ''h'')\<lparr>generate := True\<rparr>"
      sample_collaborators empty_world]
  by (auto simp add: default_arguments_def empty_world_def)

text \<open>
  Claim C10: when the train flag is unset and the visualize or the test flag is set,
  the run fails with the NameError of the unbound local \<open>model\<close>; the only collaborator
  that may have run before is the generator, so nothing is shown or tested. The
  \<open>model\<close> option plays no part: changing it changes nothing of a run without generation.
\<close>

theorem visualize_or_test_without_train:
  assumes "\<not> train arguments" "visualize arguments \<or> test arguments"
  shows "run_with_arguments C arguments W =
           Inl (NameError ''model'',
                if generate arguments
                then call (GenerateResponses arguments) (generate_responses_run C arguments) W
                else W)
       \<and> (\<not> generate arguments \<longrightarrow>
            run_with_arguments C (arguments\<lparr>model := m\<rparr>) W = run_with_arguments C arguments W)"
  using assms
  by (auto simp: run_with_arguments_def visualize_stage_def test_stage_def no_locals_def)

theorem visualize_or_test_without_train_witness:
  "\<not> train ((default_arguments ''h'')\<lparr>test := True\<rparr>)
 \<and> (visualize ((default_arguments ''h'')\<lparr>test := True\<rparr>)
      \<or> test ((default_arguments ''h'')\<lparr>test := True\<rparr>))
 \<and> \<not> generate ((default_arguments ''h'')\<lparr>test := True\<rparr>)
 \<and> run_with_arguments sample_collaborators ((default_arguments ''h'')\<lparr>test := True\<rparr>) empty_world
     = Inl (NameError ''model'', empty_world)"
  using visualize_or_test_without_train [of "(default_arguments ''h'')\<lparr>test := True\<rparr>"
      sample_collaborators empty_world]
  by (simp add: default_arguments_def)

subsection \<open>The greatest suffix\<close>

lemma length_str_split: "length (str_split c s) = Suc (length (filter (\<lambda>x. x = c) s))"
  by (induction s) auto

lemma str_split_nonempty: "str_split c s \<noteq> []"
  using length_str_split [of c s] by auto

lemma str_split_no_sep: "c \<notin> set s \<Longrightarrow> str_split c s = [s]"
  by (induction s) auto

lemma last_str_split_Cons:
  "last (str_split c (x # xs)) =
     (if x = c \<or> c \<in> set xs then last (str_split c xs) else x # xs)"
proof (cases "x = c")
  case True
  then show ?thesis by (simp add: str_split_nonempty)
next
  case False
  show ?thesis
  proof (cases "c \<in> set xs")
    case True
    then have "filter (\<lambda>x. x = c) xs \<noteq> []" by (simp add: filter_empty_conv)
    then have "length (str_split c xs) \<ge> 2"
      using length_str_split [of c xs] by (cases "filter (\<lambda>x. x = c) xs") auto
    then obtain p q r where "str_split c xs = p # q # r"
      by (cases "str_split c xs"; cases "tl (str_split c xs)") auto
    with False show ?thesis using True by simp
  next
    case nin: False
    with False show ?thesis by (simp add: str_split_no_sep)
  qed
qed

lemma last_str_split_append:
  "c \<notin> set s \<Longrightarrow> last (str_split c (p @ c # s)) = s"
proof (induction p)
  case Nil
  then show ?case by (simp add: str_split_no_sep)
next
  case (Cons x p)
  have "last (str_split c ((x # p) @ c # s)) = last (str_split c (p @ c # s))"
    using last_str_split_Cons [of c x "p @ c # s"] by simp
  with Cons show ?case by simp
qed

lemma sort_suffix_after_sep: "CHR ''_'' \<notin> set s \<Longrightarrow> sort_suffix (p @ ''_'' @ s) = s"
  using last_str_split_append [of "CHR ''_''" s p] by (simp add: sort_suffix_def)

lemma sort_suffix_no_sep: "CHR ''_'' \<notin> set s \<Longrightarrow> sort_suffix s = s"
  by (simp add: sort_suffix_def str_split_no_sep)

lemma sorted_key_last_greatest:
  assumes "sorted (map f ys)" "g \<in> set ys"
  shows "f g \<le> f (last ys)"
proof -
  from assms(2) obtain i where i: "i < length ys" "ys ! i = g"
    by (auto simp: in_set_conv_nth)
  then have ne: "ys \<noteq> []" by auto
  have "map f ys ! i \<le> map f ys ! (length ys - 1)"
    using assms(1) i(1) by (intro sorted_nth_mono) auto
  with i ne show ?thesis by (simp add: last_conv_nth)
qed

lemma key_order_examples: "''03'' < ''9''" "''10'' < ''9''"
  by (simp_all add: less_char_def)

text \<open>
  Claim C3: for a directory that lists at least one name, the lookup returns the path
  followed by the last name of the listing sorted by \<open>sort_suffix\<close>, the piece after
  the final underscore; that name is in the listing and no name of the listing has a
  greater suffix in the byte-wise lexicographic order. In particular, when the names
  are three files ending in \<open>_03\<close>, \<open>_9\<close> and \<open>_10\<close>, the one ending in \<open>_9\<close> is returned.
\<close>

theorem get_latest_parameter_file_name_greatest:
  assumes "F path = Some npz_files" "npz_files \<noteq> []"
  shows "\<exists>f. get_latest_parameter_file_name F path = Inr (path @ f)
           \<and> f = last (sort_key sort_suffix npz_files)
           \<and> sorted (map sort_suffix (sort_key sort_suffix npz_files))
           \<and> f \<in> set npz_files
           \<and> (\<forall>g \<in> set npz_files. sort_suffix g \<le> sort_suffix f)
           \<and> (\<forall>a b c. set npz_files = {a @ ''_03'', b @ ''_9'', c @ ''_10''} \<longrightarrow> f = b @ ''_9'')"
proof -
  let ?ys = "sort_key sort_suffix npz_files"
  let ?f = "last ?ys"
  have ne: "?ys \<noteq> []" using assms(2) by (metis length_0_conv length_sort)
  have res: "get_latest_parameter_file_name F path = Inr (path @ ?f)"
    using assms(1) ne by (simp add: get_latest_parameter_file_name_def listdir_def split: list.splits)
  have srt: "sorted (map sort_suffix ?ys)" by (rule sorted_sort_key)
  have mem: "?f \<in> set npz_files" using ne last_in_set [of ?ys] by simp
  have mx: "\<forall>g \<in> set npz_files. sort_suffix g \<le> sort_suffix ?f"
    using sorted_key_last_greatest [OF srt] by simp
  have ex: "?f = b @ ''_9''" if h: "set npz_files = {a @ ''_03'', b @ ''_9'', c @ ''_10''}" for a b c
  proof -
    have s1: "sort_suffix (a @ ''_03'') = ''03''" using sort_suffix_after_sep [of "''03''" a] by simp
    have s2: "sort_suffix (b @ ''_9'') = ''9''" using sort_suffix_after_sep [of "''9''" b] by simp
    have s3: "sort_suffix (c @ ''_10'') = ''10''" using sort_suffix_after_sep [of "''10''" c] by simp
    have "b @ ''_9'' \<in> set npz_files" using h by simp
    with mx have ge: "''9'' \<le> sort_suffix ?f" using s2 by metis
    from mem h consider "?f = a @ ''_03''" | "?f = b @ ''_9''" | "?f = c @ ''_10''" by auto
    then show ?thesis
    proof cases
      case 1
      with ge s1 have "''9'' \<le> ''03''" by simp
      with key_order_examples(1) show ?thesis by simp
    next
      case 2
      then show ?thesis .
    next
      case 3
      with ge s3 have "''9'' \<le> ''10''" by simp
      with key_order_examples(2) show ?thesis by simp
    qed
  qed
  from res srt mem mx ex show ?thesis by blast
qed

theorem get_latest_parameter_file_name_greatest_witness:
  "(\<lambda>d. if d = ''m/'' then Some [''theta_03'', ''theta_9'', ''theta_10''] else None) ''m/''
      = Some [''theta_03'', ''theta_9'', ''theta_10'']
 \<and> [''theta_03'', ''theta_9'', ''theta_10''] \<noteq> []
 \<and> get_latest_parameter_file_name
      (\<lambda>d. if d = ''m/'' then Some [''theta_03'', ''theta_9'', ''theta_10''] else None) ''m/''
      = Inr ''m/theta_9''"
proof -
  obtain f where
    res: "get_latest_parameter_file_name
            (\<lambda>d. if d = ''m/'' then Some [''theta_03'', ''theta_9'', ''theta_10''] else None) ''m/''
          = Inr (''m/'' @ f)"
    and ex: "\<forall>a b c. set [''theta_03'', ''theta_9'', ''theta_10''] = {a @ ''_03'', b @ ''_9'', c @ ''_10''}
               \<longrightarrow> f = b @ ''_9''"
    using get_latest_parameter_file_name_greatest
         [of "\<lambda>d. if d = ''m/'' then Some [''theta_03'', ''theta_9'', ''theta_10''] else None"
             "''m/''" "[''theta_03'', ''theta_9'', ''theta_10'']"]
    by auto
  have "set [''theta_03'', ''theta_9'', ''theta_10''] =
          {''theta'' @ ''_03'', ''theta'' @ ''_9'', ''theta'' @ ''_10''}"
    by simp
  with ex have "f = ''theta'' @ ''_9''" by blast
  with res show ?thesis by simp
qed

subsection \<open>Distinct tags\<close>

lemma append_sep_eq:
  assumes "c \<notin> set xs" "c \<notin> set ys" "xs @ c # r = ys @ c # r'"
  shows "xs = ys \<and> r = r'"
proof -
  have "takeWhile (\<lambda>x. x \<noteq> c) (xs @ c # r) = xs"
    using assms(1) by (auto simp add: takeWhile_tail)
  moreover have "takeWhile (\<lambda>x. x \<noteq> c) (ys @ c # r') = ys"
    using assms(2) by (auto simp add: takeWhile_tail)
  ultimately have "xs = ys" using assms(3) by simp
  with assms(3) show ?thesis by simp
qed

lemma gen_param_str_inj:
  assumes "gen_param_str a ts t = gen_param_str b ts t'"
  shows "a = b \<and> (t = [] \<longleftrightarrow> t' = [])"
proof -
  let ?l = "\<lambda>t::string. if t \<noteq> [] then ''time'' else ''no_time''"
  have "str_int a @ CHR ''_'' # (?l t @ ''_'' @ ts) = str_int b @ CHR ''_'' # (?l t' @ ''_'' @ ts)"
    using assms by (simp add: gen_param_str_def)
  then have "str_int a = str_int b \<and> ?l t @ ''_'' @ ts = ?l t' @ ''_'' @ ts"
    by (rule append_sep_eq [OF str_int_no_sep str_int_no_sep])
  then have "a = b" and "?l t = ?l t'" by (auto dest: str_int_inj)
  then show ?thesis by (auto split: if_splits)
qed

lemma concat_map_product:
  "concat (map (\<lambda>a. map (f a) ys) xs) = map (\<lambda>(a, t). f a t) (List.product xs ys)"
  by (induction xs) simp_all

lemma run_tags_product:
  "run_tags arguments ts =
     map (\<lambda>(a, t). gen_param_str a ts t)
         (List.product (abilities arguments) (snd (get_time_arguments arguments)))"
  unfolding run_tags_def by (rule concat_map_product)

lemma time_arguments_cases:
  "snd (get_time_arguments arguments) \<in> {['''', ''-z''], [''-z''], ['''']}"
  by (simp add: get_time_arguments_def)

lemma time_arguments_distinct: "distinct (snd (get_time_arguments arguments))"
  by (simp add: get_time_arguments_def)

lemma time_arguments_nonempty: "snd (get_time_arguments arguments) \<noteq> []"
  by (simp add: get_time_arguments_def)

lemma time_arguments_truth:
  assumes "t \<in> set (snd (get_time_arguments arguments))"
    "t' \<in> set (snd (get_time_arguments arguments))" "t = [] \<longleftrightarrow> t' = []"
  shows "t = t'"
  using assms time_arguments_cases [of arguments] by auto

lemma distinct_product_left:
  "ys \<noteq> [] \<Longrightarrow> distinct (List.product xs ys) \<Longrightarrow> distinct xs"
proof (induction xs)
  case Nil
  then show ?case by simp
next
  case (Cons x xs)
  from Cons.prems(1) obtain y where y: "y \<in> set ys" by (cases ys) auto
  have "x \<notin> set xs"
  proof
    assume "x \<in> set xs"
    with y have "(x, y) \<in> set (map (Pair x) ys) \<inter> set (List.product xs ys)" by auto
    with Cons.prems(2) show False by auto
  qed
  with Cons show ?case by simp
qed

lemma run_tags_distinct_abilities:
  "distinct (run_tags arguments ts) \<longleftrightarrow> distinct (abilities arguments)"
proof
  assume d: "distinct (run_tags arguments ts)"
  then have "distinct (List.product (abilities arguments) (snd (get_time_arguments arguments)))"
    unfolding run_tags_product by (simp add: distinct_map)
  with time_arguments_nonempty show "distinct (abilities arguments)"
    by (rule distinct_product_left)
next
  assume d: "distinct (abilities arguments)"
  let ?P = "List.product (abilities arguments) (snd (get_time_arguments arguments))"
  have dp: "distinct ?P" using d time_arguments_distinct by (rule distinct_product)
  have "inj_on (\<lambda>(a, t). gen_param_str a ts t) (set ?P)"
  proof (rule inj_onI)
    fix p q
    assume p: "p \<in> set ?P" and q: "q \<in> set ?P"
      and e: "(case p of (a, t) \<Rightarrow> gen_param_str a ts t) = (case q of (a, t) \<Rightarrow> gen_param_str a ts t)"
    obtain a t where pa: "p = (a, t)" by (cases p)
    obtain b t' where qb: "q = (b, t')" by (cases q)
    from e pa qb have "gen_param_str a ts t = gen_param_str b ts t'" by simp
    then have ab: "a = b" and tt: "t = [] \<longleftrightarrow> t' = []" using gen_param_str_inj by blast+
    from p q pa qb have "t \<in> set (snd (get_time_arguments arguments))"
      "t' \<in> set (snd (get_time_arguments arguments))" by auto
    then have "t = t'" using tt by (rule time_arguments_truth)
    with ab pa qb show "p = q" by simp
  qed
  with dp show "distinct (run_tags arguments ts)"
    unfolding run_tags_product by (simp add: distinct_map)
qed

lemma length_run_tags:
  "length (run_tags arguments ts) =
     length (abilities arguments) * length (snd (get_time_arguments arguments))"
  unfolding run_tags_product by simp

text \<open>
  Claim C8 says that the tags of a run are pairwise distinct for every ability list,
  duplicates allowed. An ability that occurs twice gives the same tag twice.
\<close>

theorem run_tags_duplicates_counterexample:
  "run_tags ((default_arguments ''h'')\<lparr>abilities := [1, 1]\<rparr>) ''T'' = [''1_time_T'', ''1_time_T'']
 \<and> \<not> distinct (run_tags ((default_arguments ''h'')\<lparr>abilities := [1, 1]\<rparr>) ''T'')"
  by (simp add: run_tags_def get_time_arguments_def default_arguments_def gen_param_str_def
      str_int_def str_nat.simps digit_char_def)

text \<open>
  Claim C8, amended: under one run timestamp the tags of the grid, one per ability and
  resolved time variant, are pairwise distinct exactly when the ability list has no
  duplicates; there are as many tags as abilities times time variants.
\<close>

theorem run_tags_distinct_iff:
  "(distinct (run_tags arguments ts) \<longleftrightarrow> distinct (abilities arguments))
 \<and> length (run_tags arguments ts) =
     length (abilities arguments) * length (snd (get_time_arguments arguments))"
  using run_tags_distinct_abilities [of arguments ts] length_run_tags [of arguments ts]
  by simp

theorem run_tags_distinct_iff_witness:
  "distinct (run_tags ((default_arguments ''h'')
      \<lparr>abilities := [1, 2], time := ''with_and_without_time''\<rparr>) ''T'')"
  using run_tags_distinct_iff
      [of "(default_arguments ''h'')\<lparr>abilities := [1, 2], time := ''with_and_without_time''\<rparr>"
          "''T''"]
  by (simp add: default_arguments_def)

subsection \<open>When the run ends normally\<close>

lemma for_each_append:
  "for_each body (xs @ ys) s =
     (case for_each body xs s of Inl e \<Rightarrow> Inl e | Inr s' \<Rightarrow> for_each body ys s')"
  by (induction xs arbitrary: s) (auto split: sum.splits)

lemma for_each_snoc:
  "for_each body (xs @ [x]) s =
     (case for_each body xs s of Inl e \<Rightarrow> Inl e | Inr s' \<Rightarrow> body x s')"
  by (simp add: for_each_append split: sum.splits)

lemma get_latest_has_checkpoint:
  "has_checkpoint F d \<Longrightarrow> \<exists>m. get_latest_parameter_file_name F d = Inr m"
  by (auto simp: has_checkpoint_def get_latest_parameter_file_name_def listdir_def
      sort_key_Nil_iff split: option.splits list.splits)

lemma mirt_train_params_out_dir:
  "10 \<le> length (mirt_train_params arguments a t ts)
 \<and> mirt_train_params arguments a t ts ! 9 = out_dir arguments ts a t"
  by (simp add: mirt_train_params_def out_dir_def Let_def nth_append)

lemma generate_model_has_checkpoint:
  assumes "leaves_checkpoint C"
  shows "has_checkpoint (files (generate_model_with_parameters C arguments a t ts W))
           (out_dir arguments ts a t)"
proof -
  let ?ps = "mirt_train_params arguments a t ts"
  let ?F = "mkdir_p C (OnePath (out_dir arguments ts a t)) (files W)"
  have "has_checkpoint (run_programmatically C ?ps ?F) (?ps ! 9)"
    using assms mirt_train_params_out_dir [of arguments a t ts]
    unfolding leaves_checkpoint_def by blast
  then show ?thesis
    using mirt_train_params_out_dir [of arguments a t ts]
    by (simp add: generate_model_with_parameters_def call_def Let_def out_dir_def)
qed

lemma cell_body_completes:
  assumes "leaves_checkpoint C" "keeps_checkpoints C"
  shows "\<exists>L' W'. cell_body C arguments ts a t (L, W) = Inr (L', W')
           \<and> v_time L' = Some t \<and> v_roc_curve L' \<noteq> None
           \<and> has_checkpoint (files W') (out_dir arguments ts a t)"
proof -
  let ?Wt = "generate_model_with_parameters C arguments a t ts W"
  have hc: "has_checkpoint (files ?Wt) (out_dir arguments ts a t)"
    using assms(1) by (rule generate_model_has_checkpoint)
  then obtain prm where
    gp: "get_latest_parameter_file_name (files ?Wt) (out_dir arguments ts a t) = Inr prm"
    using get_latest_has_checkpoint by blast
  have "has_checkpoint (snd (load_and_simulate_assessment C prm (roc_path arguments ts a t)
           (model_directory arguments @ ''test.responses'') (files ?Wt)))
           (out_dir arguments ts a t)"
    using assms(2) hc by (simp add: keeps_checkpoints_def)
  with gp show ?thesis
    by (simp add: cell_body_def generate_roc_curve_from_model_def Let_def call_def
        out_dir_def roc_path_def)
qed

lemma inner_loop_completes:
  assumes "leaves_checkpoint C" "keeps_checkpoints C"
  shows "\<exists>L' W'. for_each (cell_body C arguments ts a) tms (L, W) = Inr (L', W')
           \<and> (tms \<noteq> [] \<longrightarrow> v_time L' = Some (last tms) \<and> v_roc_curve L' \<noteq> None
                \<and> has_checkpoint (files W') (out_dir arguments ts a (last tms)))"
proof (induction tms rule: rev_induct)
  case Nil
  then show ?case by simp
next
  case (snoc t tms)
  then obtain L1 W1 where
    "for_each (cell_body C arguments ts a) tms (L, W) = Inr (L1, W1)" by blast
  with cell_body_completes [OF assms, of arguments ts a t L1 W1] show ?case
    by (auto simp: for_each_snoc)
qed

lemma ability_body_completes:
  assumes "leaves_checkpoint C" "keeps_checkpoints C"
  shows "\<exists>L' W'. ability_body C arguments ts a (L, W) = Inr (L', W')
           \<and> v_roc_curve L' \<noteq> None \<and> v_params L' \<noteq> None \<and> v_model L' \<noteq> None"
proof -
  let ?tms = "snd (get_time_arguments arguments)"
  let ?W0 = "emit (map Print (fst (get_time_arguments arguments))) W"
  from inner_loop_completes [OF assms, of arguments ts a ?tms L ?W0] time_arguments_nonempty
  obtain L1 W1 where
    lp: "for_each (cell_body C arguments ts a) ?tms (L, ?W0) = Inr (L1, W1)"
    and vt: "v_time L1 = Some (last ?tms)" and vr: "v_roc_curve L1 \<noteq> None"
    and hc: "has_checkpoint (files W1) (out_dir arguments ts a (last ?tms))"
    by blast
  from hc obtain m where
    "get_latest_parameter_file_name (files W1) (out_dir arguments ts a (last ?tms)) = Inr m"
    using get_latest_has_checkpoint by blast
  with lp vt vr show ?thesis
    by (simp add: ability_body_def Let_def out_dir_def)
qed

lemma outer_loop_completes:
  assumes "leaves_checkpoint C" "keeps_checkpoints C"
  shows "\<exists>L' W'. for_each (ability_body C arguments ts) as (L, W) = Inr (L', W')
           \<and> (as \<noteq> [] \<longrightarrow> v_roc_curve L' \<noteq> None \<and> v_params L' \<noteq> None \<and> v_model L' \<noteq> None)"
proof (induction as rule: rev_induct)
  case Nil
  then show ?case by simp
next
  case (snoc a as)
  then obtain L1 W1 where
    "for_each (ability_body C arguments ts) as (L, W) = Inr (L1, W1)" by blast
  with ability_body_completes [OF assms, of arguments ts a L1 W1] show ?case
    by (auto simp: for_each_snoc)
qed

text \<open>
  With such collaborators a run that trains over a non-empty ability list always ends
  normally, whatever the other flags.
\<close>

lemma run_with_arguments_completes:
  assumes "leaves_checkpoint C" "keeps_checkpoints C" "train arguments"
    "abilities arguments \<noteq> []"
  shows "\<exists>W'. run_with_arguments C arguments W = Inr ((), W')"
proof -
  let ?Wg = "if generate arguments
             then call (GenerateResponses arguments) (generate_responses_run C arguments) W
             else W"
  let ?W3 = "emit [Print ''Training MIRT models'']
               (call (SepIntoTrainAndTest arguments) (sep_into_train_and_test C arguments)
                  (make_necessary_directiories C arguments ?Wg))"
  from outer_loop_completes [OF assms(1,2), of arguments "datetime_now_strftime C"
      "abilities arguments" no_locals ?W3] assms(4)
  obtain L1 W1 where
    tr: "train_stage C arguments (no_locals, ?Wg) = Inr (L1, W1)"
    and v: "v_roc_curve L1 \<noteq> None" "v_params L1 \<noteq> None" "v_model L1 \<noteq> None"
    by (auto simp: train_stage_def Let_def)
  from v obtain curve tag m where
    "v_roc_curve L1 = Some curve" "v_params L1 = Some tag" "v_model L1 = Some m" by auto
  with tr assms(3) show ?thesis
    by (simp add: run_with_arguments_def visualize_stage_def test_stage_def Let_def)
qed

lemma sample_collaborators_contract:
  "leaves_checkpoint sample_collaborators \<and> keeps_checkpoints sample_collaborators"
  by (simp add: leaves_checkpoint_def keeps_checkpoints_def has_checkpoint_def
      sample_collaborators_def)

lemma sample_run_completes:
  "\<exists>W'. run_with_arguments sample_collaborators sample_arguments empty_world = Inr ((), W')"
proof -
  have "train sample_arguments" "abilities sample_arguments \<noteq> []"
    by (simp_all add: sample_arguments_def default_arguments_def)
  with sample_collaborators_contract show ?thesis
    by (blast intro: run_with_arguments_completes)
qed

subsection \<open>The calls of the two loops\<close>

lemma train_calls_append: "train_calls (xs @ ys) = train_calls xs @ train_calls ys"
  by (induction xs rule: train_calls.induct) simp_all

lemma eval_calls_append: "eval_calls (xs @ ys) = eval_calls xs @ eval_calls ys"
  by (induction xs rule: eval_calls.induct) simp_all

lemma mkdir_calls_append: "mkdir_calls (xs @ ys) = mkdir_calls xs @ mkdir_calls ys"
  by (induction xs rule: mkdir_calls.induct) simp_all

lemma events_generate_model:
  "events (generate_model_with_parameters C arguments a t ts W) =
     events W @ [MkdirP (OnePath (out_dir arguments ts a t)),
                 MirtTrainEM (mirt_train_params arguments a t ts)]"
  by (simp add: generate_model_with_parameters_def call_def Let_def out_dir_def)

lemma cell_body_Inr:
  assumes "cell_body C arguments ts a t (L, W) = Inr (L', W')"
  shows "\<exists>prm.
    get_latest_parameter_file_name
      (files (generate_model_with_parameters C arguments a t ts W)) (out_dir arguments ts a t) = Inr prm
  \<and> L' = L\<lparr>v_time := Some t,
            v_roc_curve := Some (fst (load_and_simulate_assessment C prm (roc_path arguments ts a t)
               (model_directory arguments @ ''test.responses'')
               (files (generate_model_with_parameters C arguments a t ts W))))\<rparr>
  \<and> W' = call (LoadAndSimulate prm (roc_path arguments ts a t)
                  (model_directory arguments @ ''test.responses''))
               (\<lambda>_. snd (load_and_simulate_assessment C prm (roc_path arguments ts a t)
                  (model_directory arguments @ ''test.responses'')
                  (files (generate_model_with_parameters C arguments a t ts W))))
               (generate_model_with_parameters C arguments a t ts W)"
  using assms
  by (auto simp: cell_body_def generate_roc_curve_from_model_def Let_def out_dir_def roc_path_def
      split: sum.splits)


lemma cell_body_events:
  assumes "cell_body C arguments ts a t (L, W) = Inr (L', W')"
  shows "\<exists>prm. events W' = events W @
           [MkdirP (OnePath (out_dir arguments ts a t)),
            MirtTrainEM (mirt_train_params arguments a t ts),
            LoadAndSimulate prm (roc_path arguments ts a t)
              (model_directory arguments @ ''test.responses'')]"
proof -
  from cell_body_Inr [OF assms] obtain prm where
    "W' = call (LoadAndSimulate prm (roc_path arguments ts a t)
                  (model_directory arguments @ ''test.responses''))
               (\<lambda>_. snd (load_and_simulate_assessment C prm (roc_path arguments ts a t)
                  (model_directory arguments @ ''test.responses'')
                  (files (generate_model_with_parameters C arguments a t ts W))))
               (generate_model_with_parameters C arguments a t ts W)"
    by blast
  then show ?thesis by (simp add: call_def events_generate_model)
qed

lemma for_each_Cons_Inr:
  assumes "for_each body (x # xs) s = Inr s'"
  obtains s1 where "body x s = Inr s1" "for_each body xs s1 = Inr s'"
  using assms by (auto split: sum.splits)

lemma inner_loop_calls:
  assumes "for_each (cell_body C arguments ts a) tms (L, W) = Inr (L', W')"
  shows "train_calls (events W') =
           train_calls (events W) @ map (\<lambda>t. mirt_train_params arguments a t ts) tms
       \<and> (eval_calls (events W')) =
           (eval_calls (events W)) @ map (roc_path arguments ts a) tms
       \<and> mkdir_calls (events W') =
           mkdir_calls (events W) @ map (\<lambda>t. OnePath (out_dir arguments ts a t)) tms"
  using assms
proof (induction tms arbitrary: L W)
  case Nil
  then show ?case by simp
next
  case (Cons t tms)
  from Cons.prems obtain s1 where
    b: "cell_body C arguments ts a t (L, W) = Inr s1"
    and r: "for_each (cell_body C arguments ts a) tms s1 = Inr (L', W')"
    by (rule for_each_Cons_Inr)
  obtain L1 W1 where s1: "s1 = (L1, W1)" by (cases s1)
  from cell_body_events [OF b [unfolded s1]] obtain prm where
    ev: "events W1 = events W @
           [MkdirP (OnePath (out_dir arguments ts a t)),
            MirtTrainEM (mirt_train_params arguments a t ts),
            LoadAndSimulate prm (roc_path arguments ts a t)
              (model_directory arguments @ ''test.responses'')]"
    by blast
  from Cons.IH [OF r [unfolded s1]] show ?case
    by (simp add: ev train_calls_append eval_calls_append mkdir_calls_append)
qed

lemma ability_body_Inr:
  assumes "ability_body C arguments ts a (L, W) = Inr (L', W')"
  shows "\<exists>L1 t m.
      for_each (cell_body C arguments ts a) (snd (get_time_arguments arguments))
        (L, emit (map Print (fst (get_time_arguments arguments))) W) = Inr (L1, W')
    \<and> v_time L1 = Some t
    \<and> get_latest_parameter_file_name (files W') (out_dir arguments ts a t) = Inr m
    \<and> L' = L1\<lparr>v_params := Some (gen_param_str a ts t), v_model := Some m\<rparr>"
  using assms
  by (auto simp: ability_body_def Let_def out_dir_def split: sum.splits option.splits)

lemma train_calls_Print: "train_calls (map Print xs) = []"
  by (induction xs) simp_all

lemma eval_calls_Print: "eval_calls (map Print xs) = []"
  by (induction xs) simp_all

lemma mkdir_calls_Print: "mkdir_calls (map Print xs) = []"
  by (induction xs) simp_all

lemma ability_body_calls:
  assumes "ability_body C arguments ts a (L, W) = Inr (L', W')"
  shows "train_calls (events W') =
           train_calls (events W) @
           map (\<lambda>t. mirt_train_params arguments a t ts) (snd (get_time_arguments arguments))
       \<and> (eval_calls (events W')) =
           (eval_calls (events W)) @
           map (roc_path arguments ts a) (snd (get_time_arguments arguments))
       \<and> mkdir_calls (events W') =
           mkdir_calls (events W) @
           map (\<lambda>t. OnePath (out_dir arguments ts a t)) (snd (get_time_arguments arguments))"
proof -
  from ability_body_Inr [OF assms] obtain L1 where
    "for_each (cell_body C arguments ts a) (snd (get_time_arguments arguments))
        (L, emit (map Print (fst (get_time_arguments arguments))) W) = Inr (L1, W')"
    by blast
  from inner_loop_calls [OF this] show ?thesis
    by (simp add: emit_def train_calls_append eval_calls_append mkdir_calls_append
        train_calls_Print eval_calls_Print mkdir_calls_Print)
qed

lemma outer_loop_calls:
  assumes "for_each (ability_body C arguments ts) as (L, W) = Inr (L', W')"
  shows "train_calls (events W') =
           train_calls (events W) @
           concat (map (\<lambda>a. map (\<lambda>t. mirt_train_params arguments a t ts)
                               (snd (get_time_arguments arguments))) as)
       \<and> (eval_calls (events W')) =
           (eval_calls (events W)) @
           concat (map (\<lambda>a. map (roc_path arguments ts a)
                               (snd (get_time_arguments arguments))) as)
       \<and> mkdir_calls (events W') =
           mkdir_calls (events W) @
           concat (map (\<lambda>a. map (\<lambda>t. OnePath (out_dir arguments ts a t))
                               (snd (get_time_arguments arguments))) as)"
  using assms
proof (induction as arbitrary: L W)
  case Nil
  then show ?case by simp
next
  case (Cons a as)
  from Cons.prems obtain s1 where
    b: "ability_body C arguments ts a (L, W) = Inr s1"
    and r: "for_each (ability_body C arguments ts) as s1 = Inr (L', W')"
    by (rule for_each_Cons_Inr)
  obtain L1 W1 where s1: "s1 = (L1, W1)" by (cases s1)
  from ability_body_calls [OF b [unfolded s1]] Cons.IH [OF r [unfolded s1]]
  show ?case by simp
qed


lemma train_stage_calls:
  assumes "train_stage C arguments (L, W) = Inr (L', W')"
  shows "train_calls (events W') =
           train_calls (events W) @
           concat (map (\<lambda>a. map (\<lambda>t. mirt_train_params arguments a t (datetime_now_strftime C))
                               (snd (get_time_arguments arguments))) (abilities arguments))
       \<and> eval_calls (events W') =
           eval_calls (events W) @
           concat (map (\<lambda>a. map (roc_path arguments (datetime_now_strftime C) a)
                               (snd (get_time_arguments arguments))) (abilities arguments))
       \<and> mkdir_calls (events W') =
           mkdir_calls (events W) @
           PathList [model_directory arguments @ ''rocs/''] #
           concat (map (\<lambda>a. map (\<lambda>t. OnePath (out_dir arguments (datetime_now_strftime C) a t))
                               (snd (get_time_arguments arguments))) (abilities arguments))"
proof -
  let ?W3 = "emit [Print ''Training MIRT models'']
               (call (SepIntoTrainAndTest arguments) (sep_into_train_and_test C arguments)
                  (make_necessary_directiories C arguments W))"
  have loop: "for_each (ability_body C arguments (datetime_now_strftime C)) (abilities arguments)
          (L, ?W3) = Inr (L', W')"
    using assms by (simp add: train_stage_def Let_def)
  have ev: "events ?W3 = events W @ [MkdirP (PathList [model_directory arguments @ ''rocs/'']),
              SepIntoTrainAndTest arguments, Print ''Training MIRT models'']"
    by (simp add: emit_def call_def make_necessary_directiories_def Let_def)
  from outer_loop_calls [OF loop] show ?thesis
    by (simp add: ev train_calls_append eval_calls_append mkdir_calls_append)
qed

lemma visualize_stage_Inr:
  assumes "visualize_stage (L, W) = Inr (L', W')"
  shows "\<exists>m curve tag. v_model L = Some m \<and> v_roc_curve L = Some curve \<and> v_params L = Some tag
           \<and> L' = L
           \<and> W' = emit [Print (''visualizing for '' @ m), ShowRoc [(tag, curve)], ShowExercises m] W"
  using assms
  by (auto simp: visualize_stage_def emit_def Let_def split: option.splits)

lemma test_stage_Inr:
  assumes "test_stage (L, W) = Inr (L', W')"
  shows "\<exists>m. v_model L = Some m \<and> L' = L \<and> W' = emit [AdaptivePretest m] W"
  using assms by (auto simp: test_stage_def split: option.splits)

text \<open>The stages of a run that ends normally, one after the other.\<close>

lemma run_with_arguments_Inr:
  assumes "run_with_arguments C arguments W = Inr ((), W')"
  shows "\<exists>L1 W1 L2 W2 L3.
      (if train arguments
       then train_stage C arguments
              (no_locals, if generate arguments
                          then call (GenerateResponses arguments) (generate_responses_run C arguments) W
                          else W) = Inr (L1, W1)
       else L1 = no_locals \<and> W1 = (if generate arguments
                          then call (GenerateResponses arguments) (generate_responses_run C arguments) W
                          else W))
    \<and> (if visualize arguments then visualize_stage (L1, W1) = Inr (L2, W2)
        else L2 = L1 \<and> W2 = W1)
    \<and> (if test arguments then test_stage (L2, W2) = Inr (L3, W') else L3 = L2 \<and> W' = W2)"
  using assms
  by (auto simp: run_with_arguments_def Let_def split: sum.splits if_splits)


lemma calls_generate:
  "train_calls (events (call (GenerateResponses arguments) eff W)) = train_calls (events W)
 \<and> eval_calls (events (call (GenerateResponses arguments) eff W)) = eval_calls (events W)
 \<and> mkdir_calls (events (call (GenerateResponses arguments) eff W)) = mkdir_calls (events W)"
  by (simp add: call_def train_calls_append eval_calls_append mkdir_calls_append)

lemma calls_visualize:
  "train_calls (events (emit [Print s, ShowRoc d, ShowExercises m] W)) = train_calls (events W)
 \<and> eval_calls (events (emit [Print s, ShowRoc d, ShowExercises m] W)) = eval_calls (events W)
 \<and> mkdir_calls (events (emit [Print s, ShowRoc d, ShowExercises m] W)) = mkdir_calls (events W)"
  by (simp add: emit_def train_calls_append eval_calls_append mkdir_calls_append)

lemma calls_test:
  "train_calls (events (emit [AdaptivePretest m] W)) = train_calls (events W)
 \<and> eval_calls (events (emit [AdaptivePretest m] W)) = eval_calls (events W)
 \<and> mkdir_calls (events (emit [AdaptivePretest m] W)) = mkdir_calls (events W)"
  by (simp add: emit_def train_calls_append eval_calls_append mkdir_calls_append)

text \<open>
  Claim C5: a run that trains and ends normally has called the fitting collaborator,
  the evaluation collaborator and the directory helper once for every pair of an
  ability and a time variant, in the order of the abilities and, for each ability, in
  the order of the time variants: \<open>m * k\<close> cells for \<open>m\<close> abilities and \<open>k\<close> variants.
  The run ends normally whenever the fitting leaves a checkpoint in each cell's
  directory (\<open>run_with_arguments_completes\<close>); it stops at the first cell whose
  directory has none.
\<close>

theorem grid_cells_in_order:
  assumes "train arguments" "run_with_arguments C arguments W = Inr ((), W')"
  shows "train_calls (events W') =
           train_calls (events W) @
           map (\<lambda>(a, t). mirt_train_params arguments a t (datetime_now_strftime C))
               (List.product (abilities arguments) (snd (get_time_arguments arguments)))
       \<and> eval_calls (events W') =
           eval_calls (events W) @
           map (\<lambda>(a, t). roc_path arguments (datetime_now_strftime C) a t)
               (List.product (abilities arguments) (snd (get_time_arguments arguments)))
       \<and> mkdir_calls (events W') =
           mkdir_calls (events W) @
           PathList [model_directory arguments @ ''rocs/''] #
           map (\<lambda>(a, t). OnePath (out_dir arguments (datetime_now_strftime C) a t))
               (List.product (abilities arguments) (snd (get_time_arguments arguments)))
       \<and> length (List.product (abilities arguments) (snd (get_time_arguments arguments))) =
           length (abilities arguments) * length (snd (get_time_arguments arguments))"
proof -
  let ?W0 = "if generate arguments
             then call (GenerateResponses arguments) (generate_responses_run C arguments) W
             else W"
  from run_with_arguments_Inr [OF assms(2)] assms(1) obtain L1 W1 L2 W2 L3 where
    tr: "train_stage C arguments (no_locals, ?W0) = Inr (L1, W1)"
    and vi: "if visualize arguments then visualize_stage (L1, W1) = Inr (L2, W2)
             else L2 = L1 \<and> W2 = W1"
    and te: "if test arguments then test_stage (L2, W2) = Inr (L3, W') else L3 = L2 \<and> W' = W2"
    by auto
  have c0: "train_calls (events ?W0) = train_calls (events W)
          \<and> eval_calls (events ?W0) = eval_calls (events W)
          \<and> mkdir_calls (events ?W0) = mkdir_calls (events W)"
    by (simp add: calls_generate)
  have c2: "train_calls (events W2) = train_calls (events W1)
          \<and> eval_calls (events W2) = eval_calls (events W1)
          \<and> mkdir_calls (events W2) = mkdir_calls (events W1)"
  proof (cases "visualize arguments")
    case True
    with vi have "visualize_stage (L1, W1) = Inr (L2, W2)" by simp
    from visualize_stage_Inr [OF this] show ?thesis by (auto simp: calls_visualize)
  next
    case False
    with vi show ?thesis by simp
  qed
  have c3: "train_calls (events W') = train_calls (events W2)
          \<and> eval_calls (events W') = eval_calls (events W2)
          \<and> mkdir_calls (events W') = mkdir_calls (events W2)"
  proof (cases "test arguments")
    case True
    with te have "test_stage (L2, W2) = Inr (L3, W')" by simp
    from test_stage_Inr [OF this] show ?thesis by (auto simp: calls_test)
  next
    case False
    with te show ?thesis by simp
  qed
  from train_stage_calls [OF tr] c0 c2 c3 show ?thesis
    by (simp add: concat_map_product)
qed

theorem grid_cells_in_order_witness:
  "train sample_arguments
 \<and> (\<exists>W'. run_with_arguments sample_collaborators sample_arguments empty_world = Inr ((), W')
       \<and> eval_calls (events W') =
           [''m/rocs/1_no_time_T.roc'', ''m/rocs/1_time_T.roc'',
            ''m/rocs/2_no_time_T.roc'', ''m/rocs/2_time_T.roc''])"
proof -
  have t: "train sample_arguments"
    by (simp add: sample_arguments_def default_arguments_def)
  from sample_run_completes obtain W' where
    r: "run_with_arguments sample_collaborators sample_arguments empty_world = Inr ((), W')"
    by blast
  have "eval_calls (events W') =
           [''m/rocs/1_no_time_T.roc'', ''m/rocs/1_time_T.roc'',
            ''m/rocs/2_no_time_T.roc'', ''m/rocs/2_time_T.roc'']"
    using grid_cells_in_order [OF t r]
    by (simp add: sample_arguments_def sample_collaborators_def empty_world_def
        default_arguments_def get_time_arguments_def roc_path_def gen_param_str_def
        str_int_def str_nat.simps digit_char_def)
  with t r show ?thesis by blast
qed

subsection \<open>What the later stages receive\<close>

lemma for_each_last:
  assumes "for_each body xs s = Inr s'" "xs \<noteq> []"
  shows "\<exists>s0. body (last xs) s0 = Inr s'"
proof -
  from assms(2) have "xs = butlast xs @ [last xs]" by simp
  then have "for_each body (butlast xs @ [last xs]) s = Inr s'" using assms(1) by simp
  then show ?thesis by (auto simp: for_each_snoc split: sum.splits)
qed

lemma train_stage_last:
  assumes "train_stage C arguments (L, W) = Inr (L', W')" "abilities arguments \<noteq> []"
  shows "\<exists>W0 prm m.
      get_latest_parameter_file_name
        (files (generate_model_with_parameters C arguments (last (abilities arguments))
                  (last (snd (get_time_arguments arguments))) (datetime_now_strftime C) W0))
        (out_dir arguments (datetime_now_strftime C) (last (abilities arguments))
           (last (snd (get_time_arguments arguments)))) = Inr prm
    \<and> W' = call (LoadAndSimulate prm
                    (roc_path arguments (datetime_now_strftime C) (last (abilities arguments))
                       (last (snd (get_time_arguments arguments))))
                    (model_directory arguments @ ''test.responses''))
                 (\<lambda>_. snd (load_and_simulate_assessment C prm
                    (roc_path arguments (datetime_now_strftime C) (last (abilities arguments))
                       (last (snd (get_time_arguments arguments))))
                    (model_directory arguments @ ''test.responses'')
                    (files (generate_model_with_parameters C arguments (last (abilities arguments))
                       (last (snd (get_time_arguments arguments))) (datetime_now_strftime C) W0))))
                 (generate_model_with_parameters C arguments (last (abilities arguments))
                    (last (snd (get_time_arguments arguments))) (datetime_now_strftime C) W0)
    \<and> v_roc_curve L' = Some (fst (load_and_simulate_assessment C prm
                    (roc_path arguments (datetime_now_strftime C) (last (abilities arguments))
                       (last (snd (get_time_arguments arguments))))
                    (model_directory arguments @ ''test.responses'')
                    (files (generate_model_with_parameters C arguments (last (abilities arguments))
                       (last (snd (get_time_arguments arguments))) (datetime_now_strftime C) W0))))
    \<and> v_params L' = Some (gen_param_str (last (abilities arguments)) (datetime_now_strftime C)
                            (last (snd (get_time_arguments arguments))))
    \<and> get_latest_parameter_file_name (files W')
        (out_dir arguments (datetime_now_strftime C) (last (abilities arguments))
           (last (snd (get_time_arguments arguments)))) = Inr m
    \<and> v_model L' = Some m"
proof -
  let ?ts = "datetime_now_strftime C"
  let ?a = "last (abilities arguments)"
  let ?tms = "snd (get_time_arguments arguments)"
  let ?t = "last ?tms"
  from assms(1) obtain s where
    "for_each (ability_body C arguments ?ts) (abilities arguments) s = Inr (L', W')"
    by (auto simp: train_stage_def Let_def)
  from for_each_last [OF this assms(2)] obtain s0 where
    "ability_body C arguments ?ts ?a s0 = Inr (L', W')" by blast
  moreover obtain La Wa where "s0 = (La, Wa)" by (cases s0)
  ultimately have ab: "ability_body C arguments ?ts ?a (La, Wa) = Inr (L', W')" by simp
  from ability_body_Inr [OF ab] obtain L1 t m where
    inner: "for_each (cell_body C arguments ?ts ?a) ?tms
              (La, emit (map Print (fst (get_time_arguments arguments))) Wa) = Inr (L1, W')"
    and vt: "v_time L1 = Some t"
    and gm: "get_latest_parameter_file_name (files W') (out_dir arguments ?ts ?a t) = Inr m"
    and L': "L' = L1\<lparr>v_params := Some (gen_param_str ?a ?ts t), v_model := Some m\<rparr>"
    by blast
  from for_each_last [OF inner time_arguments_nonempty] obtain s1 where
    "cell_body C arguments ?ts ?a ?t s1 = Inr (L1, W')" by blast
  moreover obtain L0 W0 where "s1 = (L0, W0)" by (cases s1)
  ultimately have cb: "cell_body C arguments ?ts ?a ?t (L0, W0) = Inr (L1, W')" by simp
  from cell_body_Inr [OF cb] obtain prm where
    gp: "get_latest_parameter_file_name
           (files (generate_model_with_parameters C arguments ?a ?t ?ts W0))
           (out_dir arguments ?ts ?a ?t) = Inr prm"
    and L1: "L1 = L0\<lparr>v_time := Some ?t,
            v_roc_curve := Some (fst (load_and_simulate_assessment C prm (roc_path arguments ?ts ?a ?t)
               (model_directory arguments @ ''test.responses'')
               (files (generate_model_with_parameters C arguments ?a ?t ?ts W0))))\<rparr>"
    and W': "W' = call (LoadAndSimulate prm (roc_path arguments ?ts ?a ?t)
                  (model_directory arguments @ ''test.responses''))
               (\<lambda>_. snd (load_and_simulate_assessment C prm (roc_path arguments ?ts ?a ?t)
                  (model_directory arguments @ ''test.responses'')
                  (files (generate_model_with_parameters C arguments ?a ?t ?ts W0))))
               (generate_model_with_parameters C arguments ?a ?t ?ts W0)"
    by blast
  from vt L1 have t: "t = ?t" by simp
  from L' L1 t have
    "v_roc_curve L' = Some (fst (load_and_simulate_assessment C prm (roc_path arguments ?ts ?a ?t)
               (model_directory arguments @ ''test.responses'')
               (files (generate_model_with_parameters C arguments ?a ?t ?ts W0))))"
    "v_params L' = Some (gen_param_str ?a ?ts ?t)" "v_model L' = Some m"
    by simp_all
  with gp W' gm t show ?thesis by blast
qed


text \<open>
  Claim C2: when a run trains over a non-empty ability list and ends normally, the
  last calls of the loop are the fitting and the evaluation of the last cell (last
  ability, last time variant). The curve shown is the one this evaluation returned,
  under the tag of that cell; the model shown and tested is the newest checkpoint of
  that cell's directory, looked up once more after the evaluation. Nothing of an
  earlier cell reaches the two later stages.
\<close>

theorem last_cell_feeds_later_stages:
  assumes "train arguments" "abilities arguments \<noteq> []"
    "run_with_arguments C arguments W = Inr ((), W')"
  shows "\<exists>W0 prm curve F' m.
      get_latest_parameter_file_name
        (files (generate_model_with_parameters C arguments (last (abilities arguments))
                  (last (snd (get_time_arguments arguments))) (datetime_now_strftime C) W0))
        (out_dir arguments (datetime_now_strftime C) (last (abilities arguments))
           (last (snd (get_time_arguments arguments)))) = Inr prm
    \<and> load_and_simulate_assessment C prm
        (roc_path arguments (datetime_now_strftime C) (last (abilities arguments))
           (last (snd (get_time_arguments arguments))))
        (model_directory arguments @ ''test.responses'')
        (files (generate_model_with_parameters C arguments (last (abilities arguments))
                  (last (snd (get_time_arguments arguments))) (datetime_now_strftime C) W0))
        = (curve, F')
    \<and> get_latest_parameter_file_name F'
        (out_dir arguments (datetime_now_strftime C) (last (abilities arguments))
           (last (snd (get_time_arguments arguments)))) = Inr m
    \<and> files W' = F'
    \<and> events W' =
        events W0 @
        [MkdirP (OnePath (out_dir arguments (datetime_now_strftime C) (last (abilities arguments))
           (last (snd (get_time_arguments arguments))))),
         MirtTrainEM (mirt_train_params arguments (last (abilities arguments))
           (last (snd (get_time_arguments arguments))) (datetime_now_strftime C)),
         LoadAndSimulate prm
           (roc_path arguments (datetime_now_strftime C) (last (abilities arguments))
              (last (snd (get_time_arguments arguments))))
           (model_directory arguments @ ''test.responses'')] @
        (if visualize arguments
         then [Print (''visualizing for '' @ m),
               ShowRoc [(gen_param_str (last (abilities arguments)) (datetime_now_strftime C)
                           (last (snd (get_time_arguments arguments))), curve)],
               ShowExercises m]
         else []) @
        (if test arguments then [AdaptivePretest m] else [])"
proof -
  let ?ts = "datetime_now_strftime C"
  let ?a = "last (abilities arguments)"
  let ?t = "last (snd (get_time_arguments arguments))"
  let ?test = "model_directory arguments @ ''test.responses''"
  from run_with_arguments_Inr [OF assms(3)] assms(1) obtain Wg L1 W1 L2 W2 L3 where
    tr: "train_stage C arguments (no_locals, Wg) = Inr (L1, W1)"
    and vi: "if visualize arguments then visualize_stage (L1, W1) = Inr (L2, W2)
             else L2 = L1 \<and> W2 = W1"
    and te: "if test arguments then test_stage (L2, W2) = Inr (L3, W') else L3 = L2 \<and> W' = W2"
    by auto
  from train_stage_last [OF tr assms(2)] obtain W0 prm m where
    gp: "get_latest_parameter_file_name
           (files (generate_model_with_parameters C arguments ?a ?t ?ts W0))
           (out_dir arguments ?ts ?a ?t) = Inr prm"
    and W1: "W1 = call (LoadAndSimulate prm (roc_path arguments ?ts ?a ?t) ?test)
               (\<lambda>_. snd (load_and_simulate_assessment C prm (roc_path arguments ?ts ?a ?t) ?test
                  (files (generate_model_with_parameters C arguments ?a ?t ?ts W0))))
               (generate_model_with_parameters C arguments ?a ?t ?ts W0)"
    and vr: "v_roc_curve L1 = Some (fst (load_and_simulate_assessment C prm
               (roc_path arguments ?ts ?a ?t) ?test
               (files (generate_model_with_parameters C arguments ?a ?t ?ts W0))))"
    and vp: "v_params L1 = Some (gen_param_str ?a ?ts ?t)"
    and gm: "get_latest_parameter_file_name (files W1) (out_dir arguments ?ts ?a ?t) = Inr m"
    and vm: "v_model L1 = Some m"
    by blast
  obtain curve F' where ld: "load_and_simulate_assessment C prm (roc_path arguments ?ts ?a ?t) ?test
      (files (generate_model_with_parameters C arguments ?a ?t ?ts W0)) = (curve, F')"
    by (cases "load_and_simulate_assessment C prm (roc_path arguments ?ts ?a ?t) ?test
      (files (generate_model_with_parameters C arguments ?a ?t ?ts W0))")
  have f1: "files W1 = F'" using W1 ld by (simp add: call_def)
  have e1: "events W1 = events W0 @
        [MkdirP (OnePath (out_dir arguments ?ts ?a ?t)),
         MirtTrainEM (mirt_train_params arguments ?a ?t ?ts),
         LoadAndSimulate prm (roc_path arguments ?ts ?a ?t) ?test]"
    using W1 by (simp add: call_def events_generate_model)
  have s2: "L2 = L1 \<and> files W2 = F' \<and> events W2 = events W1 @
        (if visualize arguments
         then [Print (''visualizing for '' @ m), ShowRoc [(gen_param_str ?a ?ts ?t, curve)],
               ShowExercises m]
         else [])"
  proof (cases "visualize arguments")
    case True
    with vi have "visualize_stage (L1, W1) = Inr (L2, W2)" by simp
    from visualize_stage_Inr [OF this] vm vr vp ld f1 True show ?thesis
      by (auto simp: emit_def)
  next
    case False
    with vi f1 show ?thesis by simp
  qed
  have s3: "files W' = F' \<and> events W' = events W2 @
        (if test arguments then [AdaptivePretest m] else [])"
  proof (cases "test arguments")
    case True
    with te have "test_stage (L2, W2) = Inr (L3, W')" by simp
    from test_stage_Inr [OF this] vm s2 True show ?thesis
      by (auto simp: emit_def)
  next
    case False
    with te s2 show ?thesis by simp
  qed
  have ev: "events W' = events W0 @
        [MkdirP (OnePath (out_dir arguments ?ts ?a ?t)),
         MirtTrainEM (mirt_train_params arguments ?a ?t ?ts),
         LoadAndSimulate prm (roc_path arguments ?ts ?a ?t) ?test] @
        (if visualize arguments
         then [Print (''visualizing for '' @ m), ShowRoc [(gen_param_str ?a ?ts ?t, curve)],
               ShowExercises m]
         else []) @
        (if test arguments then [AdaptivePretest m] else [])"
    using s3 s2 e1 by simp
  from gm f1 have gm': "get_latest_parameter_file_name F' (out_dir arguments ?ts ?a ?t) = Inr m"
    by simp
  from gp ld gm' s3 ev show ?thesis by blast
qed


lemma sample_last_cell:
  "last (abilities sample_arguments) = 2
 \<and> last (snd (get_time_arguments sample_arguments)) = ''-z''
 \<and> out_dir sample_arguments (datetime_now_strftime sample_collaborators) 2 ''-z'' = ''m/2_time_T/''
 \<and> roc_path sample_arguments (datetime_now_strftime sample_collaborators) 2 ''-z''
     = ''m/rocs/2_time_T.roc''
 \<and> gen_param_str 2 (datetime_now_strftime sample_collaborators) ''-z'' = ''2_time_T''
 \<and> model_directory sample_arguments = ''m/''
 \<and> visualize sample_arguments \<and> test sample_arguments"
  by (simp add: sample_arguments_def sample_collaborators_def default_arguments_def
      get_time_arguments_def out_dir_def roc_path_def gen_param_str_def
      str_int_def str_nat.simps digit_char_def)

lemma sample_checkpoint:
  "get_latest_parameter_file_name
     (files (generate_model_with_parameters sample_collaborators sample_arguments 2 ''-z''
               (datetime_now_strftime sample_collaborators) W0)) ''m/2_time_T/''
   = Inr ''m/2_time_T/theta_0.npz''"
  by (simp add: generate_model_with_parameters_def call_def mirt_train_params_def
      get_latest_parameter_file_name_def listdir_def Let_def
      sample_arguments_def sample_collaborators_def default_arguments_def gen_param_str_def
      str_int_def str_nat.simps digit_char_def)

theorem last_cell_feeds_later_stages_witness:
  "train sample_arguments \<and> abilities sample_arguments \<noteq> []
 \<and> (\<exists>W'. run_with_arguments sample_collaborators sample_arguments empty_world = Inr ((), W')
       \<and> (\<exists>evs. events W' = evs @
             [LoadAndSimulate ''m/2_time_T/theta_0.npz'' ''m/rocs/2_time_T.roc'' ''m/test.responses'',
              Print ''visualizing for m/2_time_T/theta_0.npz'',
              ShowRoc [(''2_time_T'', [22])],
              ShowExercises ''m/2_time_T/theta_0.npz'',
              AdaptivePretest ''m/2_time_T/theta_0.npz'']))"
proof -
  have t: "train sample_arguments" and ne: "abilities sample_arguments \<noteq> []"
    by (simp_all add: sample_arguments_def default_arguments_def)
  from sample_run_completes obtain W' where
    r: "run_with_arguments sample_collaborators sample_arguments empty_world = Inr ((), W')"
    by blast
  from last_cell_feeds_later_stages [OF t ne r] obtain W0 prm curve F' m where
    gp: "get_latest_parameter_file_name
           (files (generate_model_with_parameters sample_collaborators sample_arguments 2 ''-z''
              (datetime_now_strftime sample_collaborators) W0)) ''m/2_time_T/'' = Inr prm"
    and ld: "load_and_simulate_assessment sample_collaborators prm ''m/rocs/2_time_T.roc''
           ''m/test.responses''
           (files (generate_model_with_parameters sample_collaborators sample_arguments 2 ''-z''
              (datetime_now_strftime sample_collaborators) W0)) = (curve, F')"
    and gm: "get_latest_parameter_file_name F' ''m/2_time_T/'' = Inr m"
    and ev: "events W' = events W0 @
        [MkdirP (OnePath ''m/2_time_T/''),
         MirtTrainEM (mirt_train_params sample_arguments 2 ''-z''
            (datetime_now_strftime sample_collaborators)),
         LoadAndSimulate prm ''m/rocs/2_time_T.roc'' ''m/test.responses'',
         Print (''visualizing for '' @ m), ShowRoc [(''2_time_T'', curve)],
         ShowExercises m, AdaptivePretest m]"
    unfolding sample_last_cell [THEN conjunct1]
    by (auto simp: sample_last_cell)
  from gp have prm: "prm = ''m/2_time_T/theta_0.npz''" by (simp add: sample_checkpoint)
  from ld prm have cf: "curve = [22]"
    "F' = files (generate_model_with_parameters sample_collaborators sample_arguments 2 ''-z''
              (datetime_now_strftime sample_collaborators) W0)"
    by (auto simp: sample_collaborators_def)
  from gm cf have m: "m = ''m/2_time_T/theta_0.npz''" by (simp add: sample_checkpoint)
  from ev prm cf m have "events W' =
      (events W0 @ [MkdirP (OnePath ''m/2_time_T/''),
         MirtTrainEM (mirt_train_params sample_arguments 2 ''-z''
            (datetime_now_strftime sample_collaborators))]) @
      [LoadAndSimulate ''m/2_time_T/theta_0.npz'' ''m/rocs/2_time_T.roc'' ''m/test.responses'',
       Print ''visualizing for m/2_time_T/theta_0.npz'',
       ShowRoc [(''2_time_T'', [22])],
       ShowExercises ''m/2_time_T/theta_0.npz'',
       AdaptivePretest ''m/2_time_T/theta_0.npz'']"
    by simp
  with t ne r show ?thesis by blast
qed

end
